theory Spec2Isabelle
  imports Complex_Main
begin

section \<open>Overview\<close>


text \<open>
  The development follows \<^verbatim>\<open>src/native/windows/wasapi_capture.cpp\<close> (class
  \<^verbatim>\<open>WasapiCapture\<close>) and \<^verbatim>\<open>windows_bridge.cpp\<close>.

  Conventions of the embedding.
  \<^item> \<^verbatim>\<open>float\<close> and \<^verbatim>\<open>double\<close> values are IEEE 754 binary32 and binary64
    values (type \<open>fp\<close>): a rational, an infinity or a NaN. Every arithmetic operation
    of the source is one operation of the model, rounded on its own to the nearest
    value of its format, ties to even, with gradual underflow and overflow to infinity
    (no fused multiply-add, no extended precision). The promotion of a \<^verbatim>\<open>float\<close> to
    \<^verbatim>\<open>double\<close> is exact and leaves the value as it is.
  \<^item> \<^verbatim>\<open>size_t\<close> values are natural numbers (the 64-bit bound is never reached by
    a buffer that fits in memory); the one narrowing cast of the source, to
    \<^verbatim>\<open>int32_t\<close>, is written out with its wrap-around. The conversions of the
    source from an integer to \<^verbatim>\<open>double\<close> or \<^verbatim>\<open>float\<close> are exact on the
    values they meet (a \<^verbatim>\<open>DWORD\<close> rate below \<open>2^32\<close>, a \<^verbatim>\<open>WORD\<close> channel
    count below \<open>2^16\<close>, sample counts and indices below \<open>2^53\<close>) and are written
    \<open>Fin (of_nat n)\<close>.
  \<^item> A nullable pointer is an \<open>option\<close>; a callback pointer is a flag telling whether
    the host installed it, and every invocation is appended to the log \<open>calls\<close>.
  \<^item> COM objects are handles; \<open>released\<close> logs every \<^verbatim>\<open>Release\<close> /
    \<^verbatim>\<open>CoTaskMemFree\<close> the code performs on a resource of the session.
  \<^item> The worker thread is interleaved with the control thread at the boundaries of its
    loop iterations.
  \<^item> The operating system's answers are parameters (record \<open>platform\<close>, the packets
    of a worker iteration), never fixed by the model.
\<close>

section \<open>Binary floating point\<close>

text \<open>A floating-point value. The two zeros are identified: they compare equal, and the
  only divisors of the source that can be zero (the native rate, an unsigned integer,
  and the resample ratio, a quotient of non-negative numbers) are never negative
  zero.\<close>

datatype fp = Fin rat | PInf | NInf | NaN

text \<open>The number of binary digits of a natural number.\<close>

fun bitlen :: "nat \<Rightarrow> nat" where
  "bitlen n = (if n = 0 then 0 else Suc (bitlen (n div 2)))"

declare bitlen.simps [simp del]

definition pow2 :: "int \<Rightarrow> rat" where
  "pow2 k = (if 0 \<le> k then 2 ^ nat k else 1 / 2 ^ nat (- k))"

text \<open>The binary exponent of a positive rational: \<open>pow2 (ilog2 x) \<le> x < pow2 (ilog2 x + 1)\<close>.\<close>

definition ilog2 :: "rat \<Rightarrow> int" where
  "ilog2 x = (if 1 \<le> x then int (bitlen (nat \<lfloor>x\<rfloor>)) - 1
              else - int (bitlen (nat (\<lceil>1 / x\<rceil> - 1))))"

text \<open>Rounding to the nearest integer, ties to the even one.\<close>

definition round_half_even :: "rat \<Rightarrow> int" where
  "round_half_even y =
     (let f = \<lfloor>y\<rfloor>; d = y - of_int f
      in if d < 1 / 2 then f else if 1 / 2 < d then f + 1
         else if even f then f else f + 1)"

text \<open>The spacing of the values of a format with \<open>p\<close> significant bits and least
  normal exponent \<open>emin\<close> around a positive \<open>y\<close>, and \<open>y\<close> rounded to that grid.\<close>

definition quantum :: "nat \<Rightarrow> int \<Rightarrow> rat \<Rightarrow> rat" where
  "quantum p emin y = pow2 (max emin (ilog2 y) - int p + 1)"

definition rnd :: "nat \<Rightarrow> int \<Rightarrow> rat \<Rightarrow> rat" where
  "rnd p emin y = of_int (round_half_even (y / quantum p emin y)) * quantum p emin y"

text \<open>Rounding of an exact result to the format: the magnitude is rounded, a magnitude
  that reaches \<open>2 ^ (emax + 1)\<close> overflows to the infinity of its sign.\<close>

definition round_to :: "nat \<Rightarrow> int \<Rightarrow> int \<Rightarrow> rat \<Rightarrow> fp" where
  "round_to p emin emax x =
     (if x = 0 then Fin 0
      else if pow2 (emax + 1) \<le> rnd p emin \<bar>x\<bar> then (if 0 < x then PInf else NInf)
      else Fin (if 0 < x then rnd p emin \<bar>x\<bar> else - rnd p emin \<bar>x\<bar>))"

definition round64 :: "rat \<Rightarrow> fp" where
  "round64 = round_to 53 (- 1022) 1023"

definition round32 :: "rat \<Rightarrow> fp" where
  "round32 = round_to 24 (- 126) 127"

text \<open>The operations, for a format given by its rounding function \<open>rd\<close>.\<close>

fun fp_negative :: "fp \<Rightarrow> bool" where
  "fp_negative (Fin x) = (x < 0)"
| "fp_negative PInf = False"
| "fp_negative NInf = True"
| "fp_negative NaN = False"

definition fp_inf :: "bool \<Rightarrow> fp" where
  "fp_inf negative = (if negative then NInf else PInf)"

fun fp_neg :: "fp \<Rightarrow> fp" where
  "fp_neg (Fin x) = Fin (- x)"
| "fp_neg PInf = NInf"
| "fp_neg NInf = PInf"
| "fp_neg NaN = NaN"

fun fp_add :: "(rat \<Rightarrow> fp) \<Rightarrow> fp \<Rightarrow> fp \<Rightarrow> fp" where
  "fp_add rd (Fin x) (Fin y) = rd (x + y)"
| "fp_add rd NaN b = NaN"
| "fp_add rd a NaN = NaN"
| "fp_add rd PInf NInf = NaN"
| "fp_add rd NInf PInf = NaN"
| "fp_add rd PInf b = PInf"
| "fp_add rd NInf b = NInf"
| "fp_add rd a PInf = PInf"
| "fp_add rd a NInf = NInf"

definition fp_sub :: "(rat \<Rightarrow> fp) \<Rightarrow> fp \<Rightarrow> fp \<Rightarrow> fp" where
  "fp_sub rd a b = fp_add rd a (fp_neg b)"

fun fp_mul :: "(rat \<Rightarrow> fp) \<Rightarrow> fp \<Rightarrow> fp \<Rightarrow> fp" where
  "fp_mul rd (Fin x) (Fin y) = rd (x * y)"
| "fp_mul rd NaN b = NaN"
| "fp_mul rd a NaN = NaN"
| "fp_mul rd (Fin x) b = (if x = 0 then NaN else fp_inf ((x < 0) \<noteq> fp_negative b))"
| "fp_mul rd a (Fin y) = (if y = 0 then NaN else fp_inf (fp_negative a \<noteq> (y < 0)))"
| "fp_mul rd a b = fp_inf (fp_negative a \<noteq> fp_negative b)"

fun fp_div :: "(rat \<Rightarrow> fp) \<Rightarrow> fp \<Rightarrow> fp \<Rightarrow> fp" where
  "fp_div rd (Fin x) (Fin y) =
     (if y = 0 then (if x = 0 then NaN else fp_inf (x < 0)) else rd (x / y))"
| "fp_div rd NaN b = NaN"
| "fp_div rd a NaN = NaN"
| "fp_div rd (Fin x) b = Fin 0"
| "fp_div rd a (Fin y) = fp_inf (fp_negative a \<noteq> (y < 0))"
| "fp_div rd a b = NaN"

text \<open>The comparison \<^verbatim>\<open><\<close>; it is false when an operand is a NaN. The comparison
  \<^verbatim>\<open>!=\<close> of the source against the constant 1.0 is the inequality of \<open>fp\<close>.\<close>

fun fp_less :: "fp \<Rightarrow> fp \<Rightarrow> bool" where
  "fp_less (Fin x) (Fin y) = (x < y)"
| "fp_less NaN b = False"
| "fp_less a NaN = False"
| "fp_less a NInf = False"
| "fp_less PInf b = False"
| "fp_less a b = True"

abbreviation dadd :: "fp \<Rightarrow> fp \<Rightarrow> fp" where "dadd \<equiv> fp_add round64"
abbreviation dsub :: "fp \<Rightarrow> fp \<Rightarrow> fp" where "dsub \<equiv> fp_sub round64"
abbreviation dmul :: "fp \<Rightarrow> fp \<Rightarrow> fp" where "dmul \<equiv> fp_mul round64"
abbreviation ddiv :: "fp \<Rightarrow> fp \<Rightarrow> fp" where "ddiv \<equiv> fp_div round64"
abbreviation fadd :: "fp \<Rightarrow> fp \<Rightarrow> fp" where "fadd \<equiv> fp_add round32"
abbreviation fmul :: "fp \<Rightarrow> fp \<Rightarrow> fp" where "fmul \<equiv> fp_mul round32"
abbreviation fdiv :: "fp \<Rightarrow> fp \<Rightarrow> fp" where "fdiv \<equiv> fp_div round32"

text \<open>\<^verbatim>\<open>static_cast<float>\<close> of a \<^verbatim>\<open>double\<close>.\<close>

fun to_float :: "fp \<Rightarrow> fp" where
  "to_float (Fin x) = round32 x"
| "to_float PInf = PInf"
| "to_float NInf = NInf"
| "to_float NaN = NaN"

text \<open>The values of the two formats.\<close>

fun is_double :: "fp \<Rightarrow> bool" where
  "is_double (Fin x) = (round64 x = Fin x)"
| "is_double PInf = True"
| "is_double NInf = True"
| "is_double NaN = True"

fun is_float :: "fp \<Rightarrow> bool" where
  "is_float (Fin x) = (round32 x = Fin x)"
| "is_float PInf = True"
| "is_float NInf = True"
| "is_float NaN = True"

section \<open>WASAPI capture engine: data model\<close>

type_synonym sample = fp
type_synonym hresult = int
type_synonym handle = nat
type_synonym time_point = int  \<comment> \<open>\<^verbatim>\<open>steady_clock\<close> ticks, nanoseconds\<close>

definition FAILED :: "hresult \<Rightarrow> bool" where
  "FAILED hr = (hr < 0)"

definition S_OK :: hresult where
  "S_OK = 0"

definition E_FAIL :: hresult where
  "E_FAIL = - 2147467259"

text \<open>\<^verbatim>\<open>static_cast<size_t>(double)\<close>: truncation. The operand is never negative in
  the source; for a negative, infinite or NaN operand, where C++ leaves the behaviour
  undefined, the model yields 0.\<close>

fun to_size_t :: "fp \<Rightarrow> nat" where
  "to_size_t (Fin x) = nat \<lfloor>x\<rfloor>"
| "to_size_t PInf = 0"
| "to_size_t NInf = 0"
| "to_size_t NaN = 0"


text \<open>\<^verbatim>\<open>static_cast<int32_t>(size_t)\<close>: reduction modulo \<open>2^32\<close>, read as signed.\<close>

definition to_int32 :: "nat \<Rightarrow> int" where
  "to_int32 n = (int n + 2147483648) mod 4294967296 - 2147483648"


text \<open>The two fields of \<^verbatim>\<open>WAVEFORMATEX\<close> the engine reads.\<close>

record WAVEFORMATEX =
  nSamplesPerSec :: nat
  nChannels :: nat

text \<open>One entry per invocation of a host callback: the data callback with the samples
  it is handed and the byte length, the event callback with its type and message, the
  metadata callback with its five arguments.\<close>

datatype callback =
    DataCall "sample list" int
  | EventCall int "string option"
  | MetadataCall fp nat nat bool string

text \<open>A native resource the session can own: the two COM interfaces and the
  \<^verbatim>\<open>CoTaskMemAlloc\<close>'ed mix format.\<close>

datatype resource =
    AudioClient handle
  | CaptureClient handle
  | MixFormat WAVEFORMATEX

record session =
  dataCallback :: bool
  eventCallback :: bool
  metadataCallback :: bool
  audioClient :: "handle option"
  captureClient :: "handle option"
  mixFormat :: "WAVEFORMATEX option"
  captureThread :: bool  \<comment> \<open>\<^verbatim>\<open>captureThread_.joinable()\<close>\<close>
  running :: bool
  stopEvent :: bool  \<comment> \<open>the manual-reset event is signalled\<close>
  targetSampleRate :: fp
  chunkDurationMs :: fp
  isMono :: bool
  gain :: fp
  emitSilence :: bool
  lastDataTime :: time_point
  chunkBuffer :: "sample list"
  samplesPerChunk :: nat
  resampleRatio :: fp
  calls :: "callback list"
  released :: "resource list"

text \<open>The constructor \<^verbatim>\<open>WasapiCapture::WasapiCapture\<close>: the three callbacks are taken as
  given (the bridge's \<^verbatim>\<open>audio_create\<close> does not check them for null).\<close>

definition WasapiCapture :: "bool \<Rightarrow> bool \<Rightarrow> bool \<Rightarrow> session" where
  "WasapiCapture dataCb eventCb metadataCb =
     \<lparr> dataCallback = dataCb, eventCallback = eventCb, metadataCallback = metadataCb,
       audioClient = None, captureClient = None, mixFormat = None,
       captureThread = False, running = False, stopEvent = False,
       targetSampleRate = Fin 0, chunkDurationMs = Fin 200,
       isMono = True, gain = Fin 1, emitSilence = True, lastDataTime = 0,
       chunkBuffer = [], samplesPerChunk = 0, resampleRatio = Fin 1,
       calls = [], released = [] \<rparr>"


section \<open>Signal processing\<close>

text \<open>\<^verbatim>\<open>WasapiCapture::ConvertToMono\<close>: one output sample per frame. The
  \<^verbatim>\<open>float\<close> accumulator \<^verbatim>\<open>sum\<close> starts at 0 and takes the frame's \<open>channels\<close>
  interleaved samples one after the other (\<^verbatim>\<open>sum += input[i * channels + c]\<close>); the
  sum is divided by the channel count converted to \<^verbatim>\<open>float\<close>.\<close>

definition ConvertToMono :: "nat \<Rightarrow> sample list \<Rightarrow> nat \<Rightarrow> sample list" where
  "ConvertToMono channels input frames =
     map (\<lambda>i. fdiv (foldl (\<lambda>sum c. fadd sum (input ! (i * channels + c))) (Fin 0) [0..<channels])
                 (Fin (of_nat channels)))
       [0..<frames]"

text \<open>\<^verbatim>\<open>WasapiCapture::ResampleAudio\<close>: linear interpolation over the flat sample
  sequence it is given. The index arithmetic and the interpolation are in
  \<^verbatim>\<open>double\<close>; the interpolated value is cast to \<^verbatim>\<open>float\<close>.\<close>

definition resample_at :: "fp \<Rightarrow> sample list \<Rightarrow> nat \<Rightarrow> nat \<Rightarrow> sample" where
  "resample_at ratio input inputSamples i =
     (let srcIndex = ddiv (Fin (of_nat i)) ratio;
          srcIndexInt = to_size_t srcIndex;
          frac = dsub srcIndex (Fin (of_nat srcIndexInt))
      in if srcIndexInt + 1 < inputSamples
         then to_float (dadd (dmul (input ! srcIndexInt) (dsub (Fin 1) frac))
                             (dmul (input ! (srcIndexInt + 1)) frac))
         else if srcIndexInt < inputSamples then input ! srcIndexInt
         else Fin 0)"

definition ResampleAudio :: "fp \<Rightarrow> sample list \<Rightarrow> nat \<Rightarrow> sample list" where
  "ResampleAudio ratio input inputSamples =
     (let outputSamples = to_size_t (dmul (Fin (of_nat inputSamples)) ratio)
      in map (resample_at ratio input inputSamples) [0..<outputSamples])"

text \<open>The emission loop at the end of \<^verbatim>\<open>ProcessAudioData\<close>:
  \<^verbatim>\<open>while (chunkBuffer_.size() >= samplesNeeded && dataCallback_) { callback; erase }\<close>.
  With \<open>samplesNeeded = 0\<close> and a callback installed the C++ loop never ends; the model
  then has no result (\<open>None\<close>).\<close>

partial_function (option) emit_chunks :: "nat \<Rightarrow> session \<Rightarrow> session option" where
  "emit_chunks samplesNeeded s =
     (if samplesNeeded \<le> length (chunkBuffer s) \<and> dataCallback s
      then emit_chunks samplesNeeded
             (s\<lparr> calls := calls s @
                    [DataCall (take samplesNeeded (chunkBuffer s)) (to_int32 (samplesNeeded * 4))],
                chunkBuffer := drop samplesNeeded (chunkBuffer s) \<rparr>)
      else Some s)"

text \<open>The three stages of \<^verbatim>\<open>ProcessAudioData\<close> before accumulation, as the source
  threads them through the local pointer \<^verbatim>\<open>floatData\<close>. Each stage reads its input by
  index, as the loops of the source do; the capture buffer holds
  \<open>numFrames * nChannels\<close> samples. The gain stage multiplies in \<^verbatim>\<open>float\<close>, by
  the gain cast to \<^verbatim>\<open>float\<close>.\<close>

definition gain_stage :: "session \<Rightarrow> sample list \<Rightarrow> nat \<Rightarrow> sample list" where
  "gain_stage s floatData totalSamples =
     (if gain s \<noteq> Fin 1
      then map (\<lambda>i. fmul (floatData ! i) (to_float (gain s))) [0..<totalSamples]
      else floatData)"

definition mono_applies :: "session \<Rightarrow> WAVEFORMATEX \<Rightarrow> bool" where
  "mono_applies s mf = (isMono s \<and> 1 < nChannels mf)"

definition mono_stage :: "session \<Rightarrow> WAVEFORMATEX \<Rightarrow> sample list \<Rightarrow> nat \<Rightarrow> sample list" where
  "mono_stage s mf floatData numFrames =
     (if mono_applies s mf then ConvertToMono (nChannels mf) floatData numFrames
      else floatData)"

text \<open>The local \<^verbatim>\<open>numChannels\<close> after the downmix stage.\<close>

definition channels_after_mono :: "session \<Rightarrow> WAVEFORMATEX \<Rightarrow> nat" where
  "channels_after_mono s mf = (if mono_applies s mf then 1 else nChannels mf)"

definition resample_applies :: "session \<Rightarrow> bool" where
  "resample_applies s = (resampleRatio s \<noteq> Fin 1)"

text \<open>The samples appended to \<open>chunkBuffer\<close> for one batch: the first
  \<open>outputFrames * numChannels\<close> samples of the last stage's output.\<close>

definition processed_samples :: "session \<Rightarrow> WAVEFORMATEX \<Rightarrow> sample list \<Rightarrow> nat \<Rightarrow> sample list" where
  "processed_samples s mf data numFrames =
     (let totalSamples = numFrames * nChannels mf;
          floatData = gain_stage s data totalSamples;
          floatData = mono_stage s mf floatData numFrames;
          numChannels = channels_after_mono s mf;
          resampledData = ResampleAudio (resampleRatio s) floatData (numFrames * numChannels);
          floatData = (if resample_applies s then resampledData else floatData);
          outputFrames = (if resample_applies s then length resampledData div numChannels
                          else numFrames);
          outputSamples = outputFrames * numChannels
      in map (\<lambda>i. floatData ! i) [0..<outputSamples])"

definition samples_needed :: "session \<Rightarrow> WAVEFORMATEX \<Rightarrow> nat" where
  "samples_needed s mf =
     samplesPerChunk s * (if isMono s then 1 else channels_after_mono s mf)"

text \<open>\<^verbatim>\<open>WasapiCapture::ProcessAudioData\<close>.\<close>

definition ProcessAudioData :: "sample list \<Rightarrow> nat \<Rightarrow> session \<Rightarrow> session option" where
  "ProcessAudioData data numFrames s =
     (case mixFormat s of
        None \<Rightarrow> Some s
      | Some mf \<Rightarrow>
          if numFrames = 0 then Some s
          else emit_chunks (samples_needed s mf)
                 (s\<lparr> chunkBuffer := chunkBuffer s @ processed_samples s mf data numFrames \<rparr>))"

section \<open>Source negotiation\<close>

text \<open>What the operating system answers during one \<^verbatim>\<open>Start\<close> call: the
  \<^verbatim>\<open>HRESULT\<close> of each call the code makes and the pointer each one writes through its
  out-parameter.\<close>

record platform =
  hrCoCreateInstance :: hresult
  hrGetDevice :: hresult
  hrGetDefaultAudioEndpoint :: hresult
  hrActivate :: hresult
  outActivate :: "handle option"
  hrGetMixFormat :: hresult
  outGetMixFormat :: "WAVEFORMATEX option"
  hrInitialize :: hresult
  hrGetService :: hresult
  outGetService :: "handle option"
  hrActivateAudioInterfaceAsync :: hresult
  operationCompleted :: bool  \<comment> \<open>\<^verbatim>\<open>GetOperation()\<close> is non-null after \<^verbatim>\<open>Wait(5000)\<close>\<close>
  hrGetActivateResult :: hresult
  activateResult :: hresult
  hrQueryInterface :: hresult
  outQueryInterface :: "handle option"
  hrStart :: hresult

text \<open>The common tail of the three initialisers: \<^verbatim>\<open>GetMixFormat\<close>,
  \<^verbatim>\<open>Initialize\<close>, \<^verbatim>\<open>GetService\<close>, each returning at the first failure.\<close>

definition negotiate_format :: "platform \<Rightarrow> session \<Rightarrow> hresult \<times> session" where
  "negotiate_format p s =
     (let s1 = s\<lparr> mixFormat := outGetMixFormat p \<rparr>
      in if FAILED (hrGetMixFormat p) then (hrGetMixFormat p, s1)
         else if FAILED (hrInitialize p) then (hrInitialize p, s1)
         else (hrGetService p, s1\<lparr> captureClient := outGetService p \<rparr>))"

definition InitializeSystemLoopback :: "platform \<Rightarrow> session \<Rightarrow> hresult \<times> session" where
  "InitializeSystemLoopback p s =
     (if FAILED (hrCoCreateInstance p) then (hrCoCreateInstance p, s)
      else if FAILED (hrGetDefaultAudioEndpoint p) then (hrGetDefaultAudioEndpoint p, s)
      else let s1 = s\<lparr> audioClient := outActivate p \<rparr>
           in if FAILED (hrActivate p) then (hrActivate p, s1)
              else negotiate_format p s1)"

datatype PROCESS_LOOPBACK_MODE =
    INCLUDE_TARGET_PROCESS_TREE
  | EXCLUDE_TARGET_PROCESS_TREE

definition InitializeProcessLoopback ::
  "nat \<Rightarrow> PROCESS_LOOPBACK_MODE \<Rightarrow> platform \<Rightarrow> session \<Rightarrow> hresult \<times> session" where
  "InitializeProcessLoopback targetPid mode p s =
     (if FAILED (hrActivateAudioInterfaceAsync p) then (hrActivateAudioInterfaceAsync p, s)
      else if \<not> operationCompleted p then (E_FAIL, s)
      else if FAILED (hrGetActivateResult p) \<or> FAILED (activateResult p)
           then (if FAILED (hrGetActivateResult p) then hrGetActivateResult p
                 else activateResult p, s)
      else let s1 = s\<lparr> audioClient := outQueryInterface p \<rparr>
           in if FAILED (hrQueryInterface p) then (hrQueryInterface p, s1)
              else negotiate_format p s1)"

text \<open>\<^verbatim>\<open>deviceId\<close> is the wide string handed over, \<open>None\<close> for \<^verbatim>\<open>nullptr\<close>.\<close>

definition InitializeMicrophone :: "string option \<Rightarrow> platform \<Rightarrow> session \<Rightarrow> hresult \<times> session" where
  "InitializeMicrophone deviceId p s =
     (if FAILED (hrCoCreateInstance p) then (hrCoCreateInstance p, s)
      else let hr = (case deviceId of
                       Some d \<Rightarrow> if 0 < length d then hrGetDevice p
                                 else hrGetDefaultAudioEndpoint p
                     | None \<Rightarrow> hrGetDefaultAudioEndpoint p)
           in if FAILED hr then (hr, s)
              else let s1 = s\<lparr> audioClient := outActivate p \<rparr>
                   in if FAILED (hrActivate p) then (hrActivate p, s1)
                      else negotiate_format p s1)"

section \<open>Lifecycle\<close>

text \<open>\<^verbatim>\<open>if (eventCallback_) eventCallback_(type, message, userContext_)\<close>.\<close>

definition emit_event :: "int \<Rightarrow> string option \<Rightarrow> session \<Rightarrow> session" where
  "emit_event ty msg s =
     (if eventCallback s then s\<lparr> calls := calls s @ [EventCall ty msg] \<rparr> else s)"

definition outputSampleRate :: "session \<Rightarrow> WAVEFORMATEX \<Rightarrow> fp" where
  "outputSampleRate s mf =
     (if fp_less (Fin 0) (targetSampleRate s) then targetSampleRate s
      else Fin (of_nat (nSamplesPerSec mf)))"

text \<open>\<^verbatim>\<open>WasapiCapture::FinalizeInitialization\<close>. (With a mix format of
  \<open>nSamplesPerSec = 0\<close> the ratio is an infinity or a NaN.)\<close>

definition FinalizeInitialization :: "session \<Rightarrow> hresult \<times> session" where
  "FinalizeInitialization s =
     (case mixFormat s of
        None \<Rightarrow> (E_FAIL, s)
      | Some mf \<Rightarrow>
          (S_OK,
           s\<lparr> resampleRatio := ddiv (outputSampleRate s mf) (Fin (of_nat (nSamplesPerSec mf))),
              samplesPerChunk :=
                to_size_t (dmul (ddiv (chunkDurationMs s) (Fin 1000)) (outputSampleRate s mf)),
              calls := calls s @
                (if metadataCallback s
                 then [MetadataCall (outputSampleRate s mf)
                         (if isMono s then 1 else nChannels mf) 32 True ''pcm_f32le'']
                 else []) \<rparr>))"

text \<open>The part shared by both \<^verbatim>\<open>Start\<close> functions, from the test of the initialiser's
  result to the end. \<open>initMessage\<close> is the only text in which the two differ.\<close>

definition finish_start :: "string \<Rightarrow> platform \<Rightarrow> hresult \<times> session \<Rightarrow> int \<times> session" where
  "finish_start initMessage p r =
     (case r of (hr, s1) \<Rightarrow>
        if FAILED hr then (- 3, emit_event 2 (Some initMessage) s1)
        else (case FinalizeInitialization s1 of (hr2, s2) \<Rightarrow>
          if FAILED hr2
          then (- 4, emit_event 2 (Some ''Failed to finalize audio initialization'') s2)
          else if FAILED (hrStart p)
          then (- 5, emit_event 2 (Some ''Failed to start audio client'') s2)
          else (0, (emit_event 0 None (s2\<lparr> running := True, stopEvent := False \<rparr>))
                     \<lparr> captureThread := True \<rparr>)))"

text \<open>\<^verbatim>\<open>WasapiCapture::StartSystemAudio\<close>. A process list is the pointer and the count
  the caller passes; the pointer is represented by the first element of the array, the
  only one the code reads. \<^verbatim>\<open>static_cast<DWORD>\<close> of the process id is written out.\<close>

definition StartSystemAudio ::
  "fp \<Rightarrow> fp \<Rightarrow> bool \<Rightarrow> bool \<Rightarrow> bool \<Rightarrow> int option \<Rightarrow> int \<Rightarrow> int option \<Rightarrow> int \<Rightarrow>
   platform \<Rightarrow> session \<Rightarrow> int \<times> session" where
  "StartSystemAudio sampleRate chunkMs mute monoOut silenceOn
      includeProcesses includeCount excludeProcesses excludeCount p s =
     (if running s then (- 2, s)
      else
        let s0 = s\<lparr> targetSampleRate := sampleRate,
                    chunkDurationMs := (if fp_less (Fin 0) chunkMs then chunkMs else Fin 200),
                    isMono := monoOut,
                    emitSilence := silenceOn \<rparr>
        in finish_start ''Failed to initialize audio capture'' p
             (if 0 < includeCount \<and> includeProcesses \<noteq> None
              then InitializeProcessLoopback (nat (the includeProcesses mod 4294967296))
                     INCLUDE_TARGET_PROCESS_TREE p s0
              else if 0 < excludeCount \<and> excludeProcesses \<noteq> None
              then InitializeProcessLoopback (nat (the excludeProcesses mod 4294967296))
                     EXCLUDE_TARGET_PROCESS_TREE p s0
              else InitializeSystemLoopback p s0))"

text \<open>\<^verbatim>\<open>WasapiCapture::StartMicrophone\<close>. \<open>deviceId\<close> is the device string after
  \<^verbatim>\<open>Utf8ToWide\<close> (\<open>None\<close> for a null pointer); an empty one is passed on as null.\<close>

definition StartMicrophone ::
  "fp \<Rightarrow> fp \<Rightarrow> bool \<Rightarrow> bool \<Rightarrow> string option \<Rightarrow> fp \<Rightarrow> platform \<Rightarrow> session \<Rightarrow> int \<times> session" where
  "StartMicrophone sampleRate chunkMs monoOut silenceOn deviceId micGain p s =
     (if running s then (- 2, s)
      else
        let s0 = s\<lparr> targetSampleRate := sampleRate,
                    chunkDurationMs := (if fp_less (Fin 0) chunkMs then chunkMs else Fin 200),
                    isMono := monoOut,
                    emitSilence := silenceOn,
                    gain := micGain \<rparr>;
            wideDeviceId = (case deviceId of Some d \<Rightarrow> d | None \<Rightarrow> [])
        in finish_start ''Failed to initialize microphone capture'' p
             (InitializeMicrophone (if wideDeviceId = [] then None else Some wideDeviceId) p s0))"

text \<open>\<^verbatim>\<open>WasapiCapture::Stop\<close>. The joined worker is at the head of its loop, reads
  \<^verbatim>\<open>running_ = false\<close> and leaves without a further callback.\<close>

definition Stop :: "session \<Rightarrow> int \<times> session" where
  "Stop s =
     (if \<not> running s then (0, s)
      else (0, emit_event 1 None (s\<lparr> running := False, stopEvent := True,
                                       captureThread := False \<rparr>)))"


section \<open>Worker loop\<close>

text \<open>One packet as the capture client hands it over: the result of
  \<^verbatim>\<open>GetBuffer\<close> (data pointer, frame count, the silent flag), of
  \<^verbatim>\<open>ReleaseBuffer\<close> and of the following \<^verbatim>\<open>GetNextPacketSize\<close>. The packet
  length is positive exactly while packets are pending, so the pending packets are a
  list.\<close>

record packet =
  hrGetBuffer :: hresult
  data :: "sample list option"
  numFramesAvailable :: nat
  silent :: bool
  hrReleaseBuffer :: hresult
  hrNextPacketSize :: hresult




text \<open>What the environment supplies to one iteration of \<^verbatim>\<open>while (running_)\<close>: the
  result of the first \<^verbatim>\<open>GetNextPacketSize\<close>, the pending packets, and the two clock
  readings the iteration may take.\<close>

record iteration =
  hrGetNextPacketSize :: hresult
  packets :: "packet list"
  nowAfterPackets :: time_point
  nowSilence :: time_point




section \<open>Observations and example inputs\<close>



text \<open>A platform on which every call succeeds, with a stereo 48 kHz mix format.\<close>

definition ok_platform :: platform where
  "ok_platform =
     \<lparr> hrCoCreateInstance = 0, hrGetDevice = 0, hrGetDefaultAudioEndpoint = 0,
       hrActivate = 0, outActivate = Some 1, hrGetMixFormat = 0,
       outGetMixFormat = Some \<lparr> nSamplesPerSec = 48000, nChannels = 2 \<rparr>,
       hrInitialize = 0, hrGetService = 0, outGetService = Some 2,
       hrActivateAudioInterfaceAsync = 0, operationCompleted = True,
       hrGetActivateResult = 0, activateResult = 0, hrQueryInterface = 0,
       outQueryInterface = Some 3, hrStart = 0 \<rparr>"

text \<open>A session with all three callbacks, after a successful microphone start at
  48 kHz, 200 ms chunks, mono, unity gain.\<close>

definition running_session :: session where
  "running_session =
     snd (StartMicrophone (Fin 48000) (Fin 200) True True None (Fin 1) ok_platform
            (WasapiCapture True True True))"

text \<open>The first \<open>k\<close> consecutive chunks of \<open>n\<close> samples of a buffer, each as the
  data callback receives it.\<close>

definition chunks_of :: "nat \<Rightarrow> nat \<Rightarrow> sample list \<Rightarrow> callback list" where
  "chunks_of n k buf =
     map (\<lambda>j. DataCall (take n (drop (j * n) buf)) (to_int32 (n * 4))) [0..<k]"

text \<open>The buffer the emission loop of \<^verbatim>\<open>ProcessAudioData\<close> starts from: what was left
  over, followed by the samples of the new batch.\<close>

definition pending :: "session \<Rightarrow> WAVEFORMATEX \<Rightarrow> sample list \<Rightarrow> nat \<Rightarrow> sample list" where
  "pending s mf raw numFrames = chunkBuffer s @ processed_samples s mf raw numFrames"


text \<open>The same start with chunks of 1/16 ms: three samples per chunk.\<close>

definition small_session :: session where
  "small_session =
     snd (StartMicrophone (Fin 48000) (Fin (1 / 16)) True True None (Fin 1) ok_platform
            (WasapiCapture True True True))"

text \<open>Frame of the initialisers: they write the two client pointers and the mix format,
  nothing else.\<close>

definition init_touches :: "session \<Rightarrow> session \<Rightarrow> bool" where
  "init_touches s s1 =
     (dataCallback s1 = dataCallback s \<and> eventCallback s1 = eventCallback s \<and>
      metadataCallback s1 = metadataCallback s \<and> captureThread s1 = captureThread s \<and>
      running s1 = running s \<and> stopEvent s1 = stopEvent s \<and>
      targetSampleRate s1 = targetSampleRate s \<and> chunkDurationMs s1 = chunkDurationMs s \<and>
      isMono s1 = isMono s \<and> gain s1 = gain s \<and> emitSilence s1 = emitSilence s \<and>
      lastDataTime s1 = lastDataTime s \<and> chunkBuffer s1 = chunkBuffer s \<and>
      samplesPerChunk s1 = samplesPerChunk s \<and> resampleRatio s1 = resampleRatio s \<and>
      calls s1 = calls s \<and> released s1 = released s)"




text \<open>The intermediate states of a \<^verbatim>\<open>Start\<close> call, named for the proofs: the
  parameters stored, the initialiser chosen, the device string passed on, and the state
  a successful call leaves.\<close>

definition system_config :: "fp \<Rightarrow> fp \<Rightarrow> bool \<Rightarrow> bool \<Rightarrow> session \<Rightarrow> session" where
  "system_config sampleRate chunkMs monoOut silenceOn s =
     s\<lparr> targetSampleRate := sampleRate,
        chunkDurationMs := (if fp_less (Fin 0) chunkMs then chunkMs else Fin 200),
        isMono := monoOut, emitSilence := silenceOn \<rparr>"

definition system_init ::
  "int option \<Rightarrow> int \<Rightarrow> int option \<Rightarrow> int \<Rightarrow> platform \<Rightarrow> session \<Rightarrow> hresult \<times> session" where
  "system_init inc incCount exc excCount p s0 =
     (if 0 < incCount \<and> inc \<noteq> None
      then InitializeProcessLoopback (nat (the inc mod 4294967296))
             INCLUDE_TARGET_PROCESS_TREE p s0
      else if 0 < excCount \<and> exc \<noteq> None
      then InitializeProcessLoopback (nat (the exc mod 4294967296))
             EXCLUDE_TARGET_PROCESS_TREE p s0
      else InitializeSystemLoopback p s0)"











text \<open>One handle used twice: a microphone session with gain 2 that is stopped, then a
  system-loopback session on the same handle (chunks of three samples).\<close>

definition after_microphone :: session where
  "after_microphone =
     snd (Stop (snd (StartMicrophone (Fin 48000) (Fin (1 / 16)) True True None (Fin 2) ok_platform
                       (WasapiCapture True True True))))"

definition loopback_after_microphone :: "int \<times> session" where
  "loopback_after_microphone =
     StartSystemAudio (Fin 48000) (Fin (1 / 16)) False True True None 0 None 0 ok_platform
       after_microphone"

text \<open>The samples of frame \<open>i\<close> of an interleaved buffer; the mean of a list of
  samples as \<^verbatim>\<open>float\<close> arithmetic computes it (the samples added one after the other
  to 0, the sum divided by their number, each operation rounded); and, in the words of
  the specification, the arithmetic mean of a list of numbers.\<close>

definition frame :: "nat \<Rightarrow> sample list \<Rightarrow> nat \<Rightarrow> sample list" where
  "frame channels input i = take channels (drop (i * channels) input)"

definition float_mean :: "sample list \<Rightarrow> sample" where
  "float_mean xs = fdiv (foldl fadd (Fin 0) xs) (Fin (of_nat (length xs)))"

definition arithmetic_mean :: "rat list \<Rightarrow> rat" where
  "arithmetic_mean xs = sum_list xs / of_nat (length xs)"

text \<open>The batch after the gain and downmix stages, and what \<^verbatim>\<open>ResampleAudio\<close>
  makes of it.\<close>

definition downmixed :: "session \<Rightarrow> WAVEFORMATEX \<Rightarrow> sample list \<Rightarrow> nat \<Rightarrow> sample list" where
  "downmixed s mf raw n = mono_stage s mf (gain_stage s raw (n * nChannels mf)) n"

definition resampled :: "session \<Rightarrow> WAVEFORMATEX \<Rightarrow> sample list \<Rightarrow> nat \<Rightarrow> sample list" where
  "resampled s mf raw n =
     ResampleAudio (resampleRatio s) (downmixed s mf raw n) (n * channels_after_mono s mf)"

text \<open>In the words of the specification, for exact numbers: the source position of
  output sample \<open>i\<close>, its integer part and the value interpolated there, for
  \<open>ratio = targetRate / nativeRate\<close>.\<close>

definition spec_floor_index :: "rat \<Rightarrow> nat \<Rightarrow> nat" where
  "spec_floor_index ratio i = nat \<lfloor>of_nat i / ratio\<rfloor>"

definition spec_resample_value :: "rat \<Rightarrow> rat list \<Rightarrow> nat \<Rightarrow> rat" where
  "spec_resample_value ratio input i =
     (let srcPos = of_nat i / ratio;
          floorIdx = \<lfloor>srcPos\<rfloor>;
          frac = srcPos - of_int floorIdx
      in if nat floorIdx + 1 < length input
         then (1 - frac) * input ! nat floorIdx + frac * input ! (nat floorIdx + 1)
         else if nat floorIdx < length input then input ! nat floorIdx
         else 0)"

text \<open>The same formula as the machine evaluates it: the position and the fraction in
  \<^verbatim>\<open>double\<close>, each operation rounded, the integer part by truncation of the rounded
  position, the interpolated value cast to \<^verbatim>\<open>float\<close>.\<close>

definition source_position :: "fp \<Rightarrow> nat \<Rightarrow> fp" where
  "source_position ratio i = ddiv (Fin (of_nat i)) ratio"

definition source_index :: "fp \<Rightarrow> nat \<Rightarrow> nat" where
  "source_index ratio i = to_size_t (source_position ratio i)"

definition source_fraction :: "fp \<Rightarrow> nat \<Rightarrow> fp" where
  "source_fraction ratio i =
     dsub (source_position ratio i) (Fin (of_nat (source_index ratio i)))"

definition interpolate :: "fp \<Rightarrow> sample \<Rightarrow> sample \<Rightarrow> sample" where
  "interpolate fraction a b =
     to_float (dadd (dmul a (dsub (Fin 1) fraction)) (dmul b fraction))"

definition float_resample_value :: "fp \<Rightarrow> sample list \<Rightarrow> nat \<Rightarrow> sample" where
  "float_resample_value ratio input i =
     (if source_index ratio i + 1 < length input
      then interpolate (source_fraction ratio i)
             (input ! source_index ratio i) (input ! (source_index ratio i + 1))
      else if source_index ratio i < length input then input ! source_index ratio i
      else Fin 0)"

text \<open>The ratio the engine stores for a target rate of 48000 Hz on a native rate of
  44100 Hz, and a batch of 450 samples that is 1 at index 440 and 0 elsewhere.\<close>

definition ratio_44100_48000 :: fp where
  "ratio_44100_48000 = ddiv (Fin 48000) (Fin 44100)"

definition impulse_440 :: "sample list" where
  "impulse_440 = replicate 440 (Fin 0) @ [Fin 1] @ replicate 9 (Fin 0)"

text \<open>The channel count of the output format, the all-zero chunk of the watchdog, and
  the state an iteration leaves when the watchdog fires at clock reading \<open>now\<close>: the
  chunk is handed over only if it is not empty and a data callback is installed; the
  timestamp is reset either way.\<close>

definition output_channels :: "session \<Rightarrow> WAVEFORMATEX \<Rightarrow> nat" where
  "output_channels s mf = (if isMono s then 1 else nChannels mf)"

definition silence_chunk :: "session \<Rightarrow> WAVEFORMATEX \<Rightarrow> callback" where
  "silence_chunk s mf =
     DataCall (replicate (samplesPerChunk s * output_channels s mf) (Fin 0))
       (to_int32 (samplesPerChunk s * output_channels s mf * 4))"

definition after_silence :: "session \<Rightarrow> WAVEFORMATEX \<Rightarrow> time_point \<Rightarrow> session" where
  "after_silence s mf now =
     s\<lparr> calls := calls s @
          (if 0 < samplesPerChunk s * output_channels s mf \<and> dataCallback s
           then [silence_chunk s mf] else []),
        lastDataTime := now \<rparr>"

text \<open>An iteration that finds no packet pending, at clock reading \<open>now\<close>.\<close>

definition idle_iteration :: "time_point \<Rightarrow> iteration" where
  "idle_iteration now =
     \<lparr> hrGetNextPacketSize = 0, packets = [], nowAfterPackets = now, nowSilence = now \<rparr>"

text \<open>A session whose chunk duration (1/128 ms at 48 kHz) is shorter than one sample
  period, and one with chunks of 2.5 ms (120 samples).\<close>

definition tiny_session :: session where
  "tiny_session =
     snd (StartMicrophone (Fin 48000) (Fin (1 / 128)) True True None (Fin 1) ok_platform
            (WasapiCapture True True True))"

definition short_session :: session where
  "short_session =
     snd (StartMicrophone (Fin 48000) (Fin (5 / 2)) True True None (Fin 1) ok_platform
            (WasapiCapture True True True))"

text \<open>A packet flagged silent, and a packet that is not flagged silent and has a data
  pointer but no frame; an iteration that reads one packet.\<close>

definition silent_packet :: packet where
  "silent_packet =
     \<lparr> hrGetBuffer = 0, data = Some [], numFramesAvailable = 0, silent = True,
       hrReleaseBuffer = 0, hrNextPacketSize = 0 \<rparr>"

definition empty_packet :: packet where
  "empty_packet =
     \<lparr> hrGetBuffer = 0, data = Some [], numFramesAvailable = 0, silent = False,
       hrReleaseBuffer = 0, hrNextPacketSize = 0 \<rparr>"

definition packet_iteration :: "packet \<Rightarrow> time_point \<Rightarrow> iteration" where
  "packet_iteration pk now =
     \<lparr> hrGetNextPacketSize = 0, packets = [pk], nowAfterPackets = now, nowSilence = now \<rparr>"








section \<open>Evaluation of floating-point expressions\<close>

declare fp_add.simps [simp del] fp_mul.simps [simp del] fp_div.simps [simp del]

lemmas fp_ops = fp_add.simps fp_mul.simps fp_div.simps fp_sub_def fp_inf_def

lemmas fp_eval = round64_def round32_def round_to_def rnd_def quantum_def ilog2_def pow2_def
  round_half_even_def Let_def bitlen.simps

lemma floor_rat_numeral:
  "\<lfloor>(numeral a :: rat) / numeral b\<rfloor> = numeral a div numeral b"
  using floor_divide_of_int_eq [of "numeral a" "numeral b", where ?'a = rat] by simp

lemma ceiling_rat_numeral:
  "\<lceil>(numeral a :: rat) / numeral b\<rceil> = - ((- numeral a) div numeral b)"
  using ceiling_divide_eq_div [of "numeral a" "numeral b", where ?'a = rat] by simp

lemma floor_one_numeral: "\<lfloor>(1 :: rat) / numeral b\<rfloor> = 1 div numeral b"
  using floor_divide_of_int_eq [of 1 "numeral b", where ?'a = rat] by simp

lemma ceiling_one_numeral: "\<lceil>(1 :: rat) / numeral b\<rceil> = - ((- 1) div numeral b)"
  using ceiling_divide_eq_div [of 1 "numeral b", where ?'a = rat] by simp

lemmas fp_simps = fp_ops fp_eval floor_rat_numeral ceiling_rat_numeral floor_one_numeral
  ceiling_one_numeral

lemma round64_one: "round64 1 = Fin 1"
  by (simp add: fp_simps)

lemma ddiv_self: "a \<noteq> 0 \<Longrightarrow> ddiv (Fin a) (Fin a) = Fin 1"
  by (simp add: fp_ops round64_one)

lemma chunk_200_48000: "dmul (ddiv (Fin 200) (Fin 1000)) (Fin 48000) = Fin 9600"
  by (simp add: fp_simps)

lemma chunk_sixteenth_48000: "dmul (ddiv (Fin (1 / 16)) (Fin 1000)) (Fin 48000) = Fin 3"
  by (simp add: fp_simps)

lemma chunk_tiny_48000: "dmul (ddiv (Fin (1 / 128)) (Fin 1000)) (Fin 48000) = Fin (3 / 8)"
  by (simp add: fp_simps)

lemma chunk_750_44101: "dmul (ddiv (Fin 750) (Fin 1000)) (Fin 44101) = Fin (132303 / 4)"
  by (simp add: fp_simps)

lemma chunk_9_48000:
  "dmul (ddiv (Fin 9) (Fin 1000)) (Fin 48000) = Fin (7599824371187711 / 17592186044416)"
  by (simp add: fp_simps)

lemma chunk_short_48000: "dmul (ddiv (Fin (5 / 2)) (Fin 1000)) (Fin 48000) = Fin 120"
  by (simp add: fp_simps)


lemma float_two: "to_float (Fin 2) = Fin 2"
  by (simp add: fp_simps)

lemmas chunk_evals = chunk_200_48000 chunk_sixteenth_48000 chunk_tiny_48000 chunk_750_44101
  chunk_9_48000 chunk_short_48000 ddiv_self

section \<open>Evaluation lemmas\<close>

lemmas start_defs =
  StartMicrophone_def StartSystemAudio_def finish_start_def
  InitializeMicrophone_def InitializeSystemLoopback_def InitializeProcessLoopback_def
  negotiate_format_def FinalizeInitialization_def emit_event_def FAILED_def S_OK_def
  E_FAIL_def outputSampleRate_def

lemma running_session_eval:
  "running_session =
     \<lparr> dataCallback = True, eventCallback = True, metadataCallback = True,
       audioClient = Some 1, captureClient = Some 2,
       mixFormat = Some \<lparr> nSamplesPerSec = 48000, nChannels = 2 \<rparr>,
       captureThread = True, running = True, stopEvent = False,
       targetSampleRate = Fin 48000, chunkDurationMs = Fin 200, isMono = True,
       gain = Fin 1, emitSilence = True, lastDataTime = 0, chunkBuffer = [],
       samplesPerChunk = 9600, resampleRatio = Fin 1,
       calls = [MetadataCall (Fin 48000) 1 32 True ''pcm_f32le'', EventCall 0 None],
       released = [] \<rparr>"
  by (simp add: running_session_def start_defs WasapiCapture_def ok_platform_def chunk_evals)

section \<open>The emission loop\<close>

lemma chunks_of_Suc:
  "chunks_of n (Suc k) buf =
     DataCall (take n buf) (to_int32 (n * 4)) # chunks_of n k (drop n buf)"
proof -
  have "[0..<Suc k] = 0 # map Suc [0..<k]"
    by (simp add: upt_conv_Cons map_Suc_upt del: upt_Suc)
  then show ?thesis
    by (simp add: chunks_of_def comp_def add.commute del: upt_Suc)
qed


lemma emit_chunks_short:
  "length (chunkBuffer s) < n \<Longrightarrow> emit_chunks n s = Some s"
  by (subst emit_chunks.simps) simp

text \<open>With a positive chunk size and a callback the loop ends, after emitting every
  complete chunk, oldest first.\<close>

lemma emit_chunks_drains:
  assumes "0 < n" and "dataCallback s"
  shows "emit_chunks n s =
           Some (s\<lparr> calls := calls s @ chunks_of n (length (chunkBuffer s) div n) (chunkBuffer s),
                    chunkBuffer := drop (length (chunkBuffer s) div n * n) (chunkBuffer s) \<rparr>)"
  using assms
proof (induction "length (chunkBuffer s)" arbitrary: s rule: less_induct)
  case less
  show ?case
  proof (cases "n \<le> length (chunkBuffer s)")
    case False
    then have "length (chunkBuffer s) div n = 0" by simp
    with False show ?thesis
      by (simp add: emit_chunks_short chunks_of_def)
  next
    case True
    let ?s1 = "s\<lparr> calls := calls s @
                    [DataCall (take n (chunkBuffer s)) (to_int32 (n * 4))],
                chunkBuffer := drop n (chunkBuffer s) \<rparr>"
    have step: "emit_chunks n s = emit_chunks n ?s1"
      using True less.prems by (subst emit_chunks.simps) simp
    have len: "length (chunkBuffer ?s1) < length (chunkBuffer s)"
      using True less.prems by simp
    have d: "length (chunkBuffer s) div n = Suc ((length (chunkBuffer s) - n) div n)"
      using True less.prems by (simp add: le_div_geq)
    have ih: "emit_chunks n ?s1 =
           Some (?s1\<lparr> calls := calls ?s1 @
                          chunks_of n (length (chunkBuffer ?s1) div n) (chunkBuffer ?s1),
                    chunkBuffer := drop (length (chunkBuffer ?s1) div n * n) (chunkBuffer ?s1) \<rparr>)"
      using less.hyps [OF len] less.prems by simp
    show ?thesis
      unfolding step ih
      by (simp add: d chunks_of_Suc add.commute)
  qed
qed



lemmas pipeline_defs =
  processed_samples_def gain_stage_def mono_stage_def mono_applies_def channels_after_mono_def
  resample_applies_def ConvertToMono_def samples_needed_def pending_def

lemma upt_2: "[0..<2] = [0, 1]"
  by (simp add: upt_rec)

lemma upt_3: "[0..<3] = [0, 1, 2]"
  by (simp add: upt_rec)


lemma upt_6: "[0..<6] = [0, 1, 2, 3, 4, 5]"
  by (simp add: upt_rec)




lemma ProcessAudioData_unfold:
  "mixFormat s = Some mf \<Longrightarrow> 0 < numFrames \<Longrightarrow>
     ProcessAudioData raw numFrames s =
       emit_chunks (samples_needed s mf) (s\<lparr> chunkBuffer := pending s mf raw numFrames \<rparr>)"
  by (simp add: ProcessAudioData_def pending_def)


section \<open>Frames and the outcome of a start\<close>

lemma init_touches_negotiate: "init_touches s (snd (negotiate_format p s))"
  by (simp add: init_touches_def negotiate_format_def Let_def)

lemma init_touches_audio:
  "init_touches (s\<lparr> audioClient := a \<rparr>) s1 \<Longrightarrow> init_touches s s1"
  by (simp add: init_touches_def)

lemma init_touches_refl: "init_touches s s"
  by (simp add: init_touches_def)

lemma init_touches_system: "init_touches s (snd (InitializeSystemLoopback p s))"
  by (simp add: InitializeSystemLoopback_def Let_def init_touches_refl
      init_touches_audio [OF init_touches_negotiate] init_touches_def [of s "s\<lparr>audioClient := _\<rparr>"])

lemma init_touches_process: "init_touches s (snd (InitializeProcessLoopback pid m p s))"
  by (simp add: InitializeProcessLoopback_def Let_def init_touches_refl
      init_touches_audio [OF init_touches_negotiate] init_touches_def [of s "s\<lparr>audioClient := _\<rparr>"])


lemma init_touches_system_init: "init_touches s (snd (system_init inc incCount exc excCount p s))"
  by (simp add: system_init_def init_touches_process init_touches_system)

lemma StartSystemAudio_unfold:
  "\<not> running s \<Longrightarrow>
     StartSystemAudio sampleRate chunkMs mute monoOut silenceOn inc incCount exc excCount p s
       = finish_start ''Failed to initialize audio capture'' p
           (system_init inc incCount exc excCount p
              (system_config sampleRate chunkMs monoOut silenceOn s))"
  by (simp add: StartSystemAudio_def system_config_def system_init_def Let_def)















lemma loopback_after_microphone_eval:
  "loopback_after_microphone = (0,
     \<lparr> dataCallback = True, eventCallback = True, metadataCallback = True,
       audioClient = Some 1, captureClient = Some 2,
       mixFormat = Some \<lparr> nSamplesPerSec = 48000, nChannels = 2 \<rparr>,
       captureThread = True, running = True, stopEvent = False,
       targetSampleRate = Fin 48000, chunkDurationMs = Fin (1 / 16), isMono = True,
       gain = Fin 2, emitSilence = True, lastDataTime = 0, chunkBuffer = [],
       samplesPerChunk = 3, resampleRatio = Fin 1,
       calls = [MetadataCall (Fin 48000) 1 32 True ''pcm_f32le'', EventCall 0 None,
                EventCall 1 None,
                MetadataCall (Fin 48000) 1 32 True ''pcm_f32le'', EventCall 0 None],
       released = [] \<rparr>)"
  by (simp add: loopback_after_microphone_def after_microphone_def Stop_def start_defs
      WasapiCapture_def ok_platform_def chunk_evals)

lemma finish_start_gain: "gain (snd (finish_start msg p r)) = gain (snd r)"
  by (cases r; cases "mixFormat (snd r)")
     (simp_all add: finish_start_def FinalizeInitialization_def emit_event_def)

section \<open>Examples of chunk accumulation\<close>






section \<open>Failing starts\<close>












section \<open>Chunk sizes\<close>










section \<open>Exclusivity of a running session\<close>

text \<open>
  Claim C8. When the session is already running, \<open>StartMicrophone\<close> and
  \<open>StartSystemAudio\<close> return -2 and hand back the session exactly as it was: no field
  changes (target rate, chunk duration, mono flag, gain, emit-silence flag, buffers,
  native endpoint) and the log of callback invocations is the same, so no callback was
  invoked.
\<close>

theorem start_while_running_returns_minus2:
  "running s \<Longrightarrow>
     StartMicrophone sampleRate chunkMs monoOut silenceOn deviceId micGain p s = (- 2, s) \<and>
     StartSystemAudio sampleRate chunkMs mute monoOut silenceOn inc incCount exc excCount p s
       = (- 2, s)"
  by (simp add: StartMicrophone_def StartSystemAudio_def)

theorem start_while_running_returns_minus2_witness:
  "running running_session \<and>
   StartMicrophone (Fin 44100) (Fin 100) False False (Some ''mic'') (Fin 2) ok_platform
     running_session = (- 2, running_session) \<and>
   StartSystemAudio (Fin 44100) (Fin 100) False False False None 0 None 0 ok_platform
     running_session = (- 2, running_session)"
proof -
  have r: "running running_session"
    by (simp add: running_session_eval)
  show ?thesis
    using r start_while_running_returns_minus2 [OF r] by simp
qed

section \<open>Idempotence of Stop\<close>



section \<open>Starting without a target rate\<close>



section \<open>Gain on the system-audio path\<close>

text \<open>
  Claim C2 says that no sample of a session started with \<open>StartSystemAudio\<close> is ever
  multiplied by a gain factor, whatever \<open>StartMicrophone\<close> did before on the same
  handle. The code does otherwise: \<open>StartSystemAudio\<close> never writes \<open>gain\<close>, and
  \<open>ProcessAudioData\<close> applies it whenever it differs from 1, on either path. After a
  microphone session with gain 2 on the same handle, a loopback batch of three stereo
  frames of 1.0 reaches the data callback as 2.0, 2.0, 2.0.
\<close>

theorem system_audio_keeps_microphone_gain:
  "gain (snd (StartSystemAudio sampleRate chunkMs mute monoOut silenceOn
                inc incCount exc excCount p s)) = gain s \<and>
   fst loopback_after_microphone = 0 \<and>
   gain (snd loopback_after_microphone) = Fin 2 \<and>
   ProcessAudioData [Fin 1, Fin 1, Fin 1, Fin 1, Fin 1, Fin 1] 3 (snd loopback_after_microphone) =
     Some ((snd loopback_after_microphone)
             \<lparr> calls := calls (snd loopback_after_microphone) @
                         [DataCall [Fin 2, Fin 2, Fin 2] 12] \<rparr>)"
proof -
  have g: "gain (snd (StartSystemAudio sampleRate chunkMs mute monoOut silenceOn
                inc incCount exc excCount p s)) = gain s"
  proof (cases "running s")
    case True
    then show ?thesis by (simp add: StartSystemAudio_def)
  next
    case False
    have "gain (snd (system_init inc incCount exc excCount p
              (system_config sampleRate chunkMs monoOut silenceOn s))) =
          gain (system_config sampleRate chunkMs monoOut silenceOn s)"
      using init_touches_system_init by (simp add: init_touches_def)
    then show ?thesis
      by (simp add: StartSystemAudio_unfold [OF False] finish_start_gain system_config_def)
  qed
  have m: "fdiv (fadd (fadd (Fin 0) (fmul (Fin 1) (round32 2))) (fmul (Fin 1) (round32 2)))
             (Fin 2) = Fin 2"
    by (simp add: fp_simps)
  have p: "pending (snd loopback_after_microphone) \<lparr> nSamplesPerSec = 48000, nChannels = 2 \<rparr>
             [Fin 1, Fin 1, Fin 1, Fin 1, Fin 1, Fin 1] 3 = [Fin 2, Fin 2, Fin 2]"
    by (simp add: loopback_after_microphone_eval pipeline_defs upt_2 upt_3 upt_6 m)
  have e: "ProcessAudioData [Fin 1, Fin 1, Fin 1, Fin 1, Fin 1, Fin 1] 3
             (snd loopback_after_microphone) =
     Some ((snd loopback_after_microphone)
             \<lparr> calls := calls (snd loopback_after_microphone) @
                         [DataCall [Fin 2, Fin 2, Fin 2] 12] \<rparr>)"
    apply (subst ProcessAudioData_unfold [where mf = "\<lparr> nSamplesPerSec = 48000, nChannels = 2 \<rparr>"])
      apply (simp add: loopback_after_microphone_eval)
     apply simp
    apply (simp only: p)
    apply (subst emit_chunks_drains)
      apply (simp_all add: loopback_after_microphone_eval samples_needed_def
        channels_after_mono_def mono_applies_def chunks_of_def to_int32_def)
    done
  show ?thesis
    using g e by (simp add: loopback_after_microphone_eval)
qed

section \<open>Failed starts\<close>




section \<open>Chunk size\<close>





section \<open>Chunk accumulation\<close>




end
